theory Spec2Isabelle
  imports Complex_Main "HOL-Library.Sublist"
begin

section \<open>The persisted client store (Frontend/src/store/systemStore.js)\<close>

text \<open>
  The zustand store keeps three histories (\<open>dataStreams\<close>, \<open>actions\<close>, \<open>queries\<close>),
  three status fields, two settings and, under their names, the operations
  themselves. Every operation is a call of zustand's \<open>set\<close>, which merges the
  returned object shallowly into the state. The entries of the histories are
  arbitrary JavaScript objects, so they are type parameters here. \<open>overwritten\<close>
  lists the operations whose key no longer holds the store's function.

  A history starts as an array, but \<open>updateSystemStatus\<close> can put any value under its
  key, and the add operations then call \<open>.slice(0, n)\<close> on that value and spread the
  result. So a history is an array of entries, or a string (which has \<open>slice\<close> and
  spreads into its characters), or any other value (\<open>null\<close>, \<open>undefined\<close>, a number,
  a boolean, an object without \<open>slice\<close>), on which \<open>.slice\<close> throws a TypeError.
  An array that was spread from a string holds characters besides entries.
\<close>

datatype 'x item = Item 'x | Character char

datatype 'x history = Items "'x item list" | Chars string | NoSlice

datatype store_error = SliceTypeError | NotAFunction

record notification_prefs =
  email :: bool
  push :: bool
  sound :: bool

record ('d, 'a, 'q) store =
  isActive :: bool
  wsConnected :: bool
  lastError :: "string option"
  dataStreams :: "'d history"
  actions :: "'a history"
  queries :: "'q history"
  autoConfirmActions :: bool
  notificationPreferences :: notification_prefs
  overwritten :: "string list"

definition initial_store :: "('d, 'a, 'q) store" where
  "initial_store =
     \<lparr>isActive = True, wsConnected = False, lastError = None,
      dataStreams = Items [], actions = Items [], queries = Items [],
      autoConfirmActions = False,
      notificationPreferences = \<lparr>email = True, push = True, sound = True\<rparr>,
      overwritten = []\<rparr>"

text \<open>
  An object handed to \<open>set\<close> names some of the keys of the state; a key that is
  not named keeps its value. \<open>None\<close> is a key that is absent from the object. Under
  a history key the object may carry any value. The status fields and settings are
  kept at their types: no operation of the store dereferences them.
  \<open>p_operations\<close> lists the names of operations of the store that are among the
  keys of the object. Such an object is data, so the value it puts under the name
  of an operation is not callable.
\<close>

record prefs_patch =
  p_email :: "bool option"
  p_push :: "bool option"
  p_sound :: "bool option"

record ('d, 'a, 'q) store_patch =
  p_isActive :: "bool option"
  p_wsConnected :: "bool option"
  p_lastError :: "string option option"
  p_dataStreams :: "'d history option"
  p_actions :: "'a history option"
  p_queries :: "'q history option"
  p_autoConfirmActions :: "bool option"
  p_notificationPreferences :: "notification_prefs option"
  p_operations :: "string list"

definition or_else :: "'x option \<Rightarrow> 'x \<Rightarrow> 'x" where
  "or_else p old = (case p of None \<Rightarrow> old | Some v \<Rightarrow> v)"

text \<open>\<open>set(partial)\<close>: the shallow merge \<open>{ ...state, ...partial }\<close>.\<close>

definition set_state :: "('d, 'a, 'q) store_patch \<Rightarrow> ('d, 'a, 'q) store \<Rightarrow> ('d, 'a, 'q) store" where
  "set_state p s =
     \<lparr>isActive = or_else (p_isActive p) (isActive s),
      wsConnected = or_else (p_wsConnected p) (wsConnected s),
      lastError = or_else (p_lastError p) (lastError s),
      dataStreams = or_else (p_dataStreams p) (dataStreams s),
      actions = or_else (p_actions p) (actions s),
      queries = or_else (p_queries p) (queries s),
      autoConfirmActions = or_else (p_autoConfirmActions p) (autoConfirmActions s),
      notificationPreferences = or_else (p_notificationPreferences p) (notificationPreferences s),
      overwritten = p_operations p @ overwritten s\<rparr>"

definition toggleSystem :: "('d, 'a, 'q) store \<Rightarrow> ('d, 'a, 'q) store" where
  "toggleSystem s = s\<lparr>isActive := \<not> isActive s\<rparr>"

text \<open>
  \<open>[x, ...h.slice(0, n)]\<close>: on an array, the new entry followed by the first \<open>n\<close>
  older ones; on a string, the new entry followed by its first \<open>n\<close> characters; on
  any other value the TypeError of \<open>h.slice\<close>.
\<close>

definition prepend_to :: "nat \<Rightarrow> 'x \<Rightarrow> 'x history \<Rightarrow> store_error + 'x history" where
  "prepend_to n x h =
     (case h of
        Items xs \<Rightarrow> Inr (Items (Item x # take n xs))
      | Chars cs \<Rightarrow> Inr (Items (Item x # map Character (take n cs)))
      | NoSlice \<Rightarrow> Inl SliceTypeError)"

text \<open>The three add operations. When the updater throws, \<open>set\<close> is not reached and
  the exception goes to the caller.\<close>

definition addDataStream :: "'d \<Rightarrow> ('d, 'a, 'q) store \<Rightarrow> store_error + ('d, 'a, 'q) store" where
  "addDataStream stream s =
     (case prepend_to 49 stream (dataStreams s) of
        Inl e \<Rightarrow> Inl e
      | Inr h \<Rightarrow> Inr (s\<lparr>dataStreams := h\<rparr>))"

definition addAction :: "'a \<Rightarrow> ('d, 'a, 'q) store \<Rightarrow> store_error + ('d, 'a, 'q) store" where
  "addAction action s =
     (case prepend_to 99 action (actions s) of
        Inl e \<Rightarrow> Inl e
      | Inr h \<Rightarrow> Inr (s\<lparr>actions := h\<rparr>))"

definition addQuery :: "'q \<Rightarrow> ('d, 'a, 'q) store \<Rightarrow> store_error + ('d, 'a, 'q) store" where
  "addQuery query s =
     (case prepend_to 49 query (queries s) of
        Inl e \<Rightarrow> Inl e
      | Inr h \<Rightarrow> Inr (s\<lparr>queries := h\<rparr>))"

text \<open>\<open>updateSystemStatus: (status) => set({ ...status })\<close>: whatever keys the
  status object carries are merged with whatever values they have, the histories
  included.\<close>

definition updateSystemStatus :: "('d, 'a, 'q) store_patch \<Rightarrow> ('d, 'a, 'q) store \<Rightarrow> ('d, 'a, 'q) store" where
  "updateSystemStatus status s = set_state status s"

definition setAutoConfirm :: "bool \<Rightarrow> ('d, 'a, 'q) store \<Rightarrow> ('d, 'a, 'q) store" where
  "setAutoConfirm v s = s\<lparr>autoConfirmActions := v\<rparr>"

definition updateNotificationPrefs :: "prefs_patch \<Rightarrow> ('d, 'a, 'q) store \<Rightarrow> ('d, 'a, 'q) store" where
  "updateNotificationPrefs prefs s =
     s\<lparr>notificationPreferences :=
         \<lparr>email = or_else (p_email prefs) (email (notificationPreferences s)),
          push = or_else (p_push prefs) (push (notificationPreferences s)),
          sound = or_else (p_sound prefs) (sound (notificationPreferences s))\<rparr>\<rparr>"

definition clearHistory :: "('d, 'a, 'q) store \<Rightarrow> ('d, 'a, 'q) store" where
  "clearHistory s = s\<lparr>actions := Items [], queries := Items [], dataStreams := Items []\<rparr>"

text \<open>The operations of the store, their code, the call of an operation through its
  key in the state, and a run of calls in order. Calling a key that no longer holds
  the store's function throws a TypeError. A call that throws leaves the state as
  it was; the run collects the exceptions thrown and goes on with the next call.\<close>

datatype ('d, 'a, 'q) store_op =
    ToggleSystem
  | AddDataStream 'd
  | AddAction 'a
  | AddQuery 'q
  | UpdateSystemStatus "('d, 'a, 'q) store_patch"
  | SetAutoConfirm bool
  | UpdateNotificationPrefs prefs_patch
  | ClearHistory

fun apply_store_op ::
  "('d, 'a, 'q) store_op \<Rightarrow> ('d, 'a, 'q) store \<Rightarrow> store_error + ('d, 'a, 'q) store" where
  "apply_store_op ToggleSystem s = Inr (toggleSystem s)"
| "apply_store_op (AddDataStream d) s = addDataStream d s"
| "apply_store_op (AddAction a) s = addAction a s"
| "apply_store_op (AddQuery q) s = addQuery q s"
| "apply_store_op (UpdateSystemStatus p) s = Inr (updateSystemStatus p s)"
| "apply_store_op (SetAutoConfirm v) s = Inr (setAutoConfirm v s)"
| "apply_store_op (UpdateNotificationPrefs p) s = Inr (updateNotificationPrefs p s)"
| "apply_store_op ClearHistory s = Inr (clearHistory s)"

fun op_name :: "('d, 'a, 'q) store_op \<Rightarrow> string" where
  "op_name ToggleSystem = ''toggleSystem''"
| "op_name (AddDataStream d) = ''addDataStream''"
| "op_name (AddAction a) = ''addAction''"
| "op_name (AddQuery q) = ''addQuery''"
| "op_name (UpdateSystemStatus p) = ''updateSystemStatus''"
| "op_name (SetAutoConfirm v) = ''setAutoConfirm''"
| "op_name (UpdateNotificationPrefs p) = ''updateNotificationPrefs''"
| "op_name ClearHistory = ''clearHistory''"

definition call_operation ::
  "('d, 'a, 'q) store_op \<Rightarrow> ('d, 'a, 'q) store \<Rightarrow> store_error + ('d, 'a, 'q) store" where
  "call_operation x s =
     (if op_name x \<in> set (overwritten s) then Inl NotAFunction else apply_store_op x s)"

fun run_store ::
  "('d, 'a, 'q) store_op list \<Rightarrow> ('d, 'a, 'q) store \<Rightarrow> store_error list \<times> ('d, 'a, 'q) store" where
  "run_store [] s = ([], s)"
| "run_store (x # xs) s =
     (case call_operation x s of
        Inl e \<Rightarrow> (e # fst (run_store xs s), snd (run_store xs s))
      | Inr s' \<Rightarrow> run_store xs s')"

text \<open>A history is within a bound when it is an array of at most that many entries.\<close>

definition array_within :: "nat \<Rightarrow> 'x history \<Rightarrow> bool" where
  "array_within n h = (case h of Items xs \<Rightarrow> length xs \<le> n | Chars cs \<Rightarrow> False | NoSlice \<Rightarrow> False)"

definition entries :: "'x history \<Rightarrow> 'x item list" where
  "entries h = (case h of Items xs \<Rightarrow> xs | Chars cs \<Rightarrow> [] | NoSlice \<Rightarrow> [])"

definition histories_bounded :: "('d, 'a, 'q) store \<Rightarrow> bool" where
  "histories_bounded s \<longleftrightarrow>
     array_within 100 (actions s) \<and> array_within 50 (dataStreams s) \<and> array_within 50 (queries s)"

text \<open>The store is intact when its histories are within their bounds and every
  operation is still the store's own.\<close>

definition store_intact :: "('d, 'a, 'q) store \<Rightarrow> bool" where
  "store_intact s \<longleftrightarrow> histories_bounded s \<and> overwritten s = []"

text \<open>A status object is harmless when each history key it carries holds an array
  within the bound of that history and no key of it is the name of an operation;
  every other operation is harmless.\<close>

definition patch_within_bounds :: "('d, 'a, 'q) store_patch \<Rightarrow> bool" where
  "patch_within_bounds p \<longleftrightarrow>
     (case p_actions p of None \<Rightarrow> True | Some h \<Rightarrow> array_within 100 h) \<and>
     (case p_dataStreams p of None \<Rightarrow> True | Some h \<Rightarrow> array_within 50 h) \<and>
     (case p_queries p of None \<Rightarrow> True | Some h \<Rightarrow> array_within 50 h) \<and>
     p_operations p = []"

fun op_within_bounds :: "('d, 'a, 'q) store_op \<Rightarrow> bool" where
  "op_within_bounds (UpdateSystemStatus p) = patch_within_bounds p"
| "op_within_bounds _ = True"

definition no_patch :: "('d, 'a, 'q) store_patch" where
  "no_patch =
     \<lparr>p_isActive = None, p_wsConnected = None, p_lastError = None,
      p_dataStreams = None, p_actions = None, p_queries = None,
      p_autoConfirmActions = None, p_notificationPreferences = None,
      p_operations = []\<rparr>"

section \<open>The rule list of the system context (SystemProvider, updateRule and deleteRule)\<close>

text \<open>
  A rule is a JavaScript object: a finite map from property names to values, its
  identifier under the key \<open>id\<close>. \<open>rule.id\<close> of an object without that key is
  \<open>undefined\<close>, which is \<open>None\<close> here, and \<open>===\<close> on identifiers is equality.
  \<open>{ ...rule, ...updates }\<close> is the map \<open>rule ++ updates\<close>: the keys of
  \<open>updates\<close> win.

  Both functions first await the API call. When it rejects, the \<open>catch\<close> block
  rethrows and \<open>setRules\<close> is never reached, so the list stays as it was.
\<close>

type_synonym 'v js_object = "string \<rightharpoonup> 'v"

datatype api_error = RequestFailed

definition updateRule ::
  "api_error + 'r \<Rightarrow> 'v option \<Rightarrow> 'v js_object \<Rightarrow> 'v js_object list
     \<Rightarrow> 'v js_object list \<times> (api_error + 'r)" where
  "updateRule response ruleId updates rules =
     (case response of
        Inl e \<Rightarrow> (rules, Inl e)
      | Inr resp \<Rightarrow>
          (map (\<lambda>rule. if rule ''id'' = ruleId then rule ++ updates else rule) rules,
           Inr resp))"

definition deleteRule ::
  "api_error + 'r \<Rightarrow> 'v option \<Rightarrow> 'v js_object list
     \<Rightarrow> 'v js_object list \<times> (api_error + unit)" where
  "deleteRule response ruleId rules =
     (case response of
        Inl e \<Rightarrow> (rules, Inl e)
      | Inr resp \<Rightarrow> (filter (\<lambda>rule. rule ''id'' \<noteq> ruleId) rules, Inr ()))"

text \<open>
  The handlers the same provider defines for the socket events. \<open>handleDataUpdate\<close>
  looks for a stream with the id of the update (\<open>findIndex\<close>, the first position or
  \<open>-1\<close>, here \<open>None\<close>): it merges the update into that stream where it stands, and
  puts an update with a new id in front of at most 49 older streams.
  \<open>handleActionExecuted\<close> puts the action in front of at most 99 older ones.
\<close>

fun findIndex :: "('x \<Rightarrow> bool) \<Rightarrow> 'x list \<Rightarrow> nat option" where
  "findIndex P [] = None"
| "findIndex P (x # xs) = (if P x then Some 0 else map_option Suc (findIndex P xs))"

definition handleDataUpdate :: "'v js_object \<Rightarrow> 'v js_object list \<Rightarrow> 'v js_object list" where
  "handleDataUpdate data prev =
     (case findIndex (\<lambda>s. s ''id'' = data ''id'') prev of
        Some index \<Rightarrow> prev[index := (prev ! index) ++ data]
      | None \<Rightarrow> data # take 49 prev)"

definition handleActionExecuted :: "'a \<Rightarrow> 'a list \<Rightarrow> 'a list" where
  "handleActionExecuted action prev = action # take 99 prev"

section \<open>The rule form (Frontend/src/components/RulesManager/RuleCreator.jsx)\<close>

text \<open>
  JavaScript values as far as the form compares them: \<open>undefined\<close>, \<open>null\<close>, strings,
  numbers and \<open>NaN\<close> (which \<open>parseFloat\<close> returns for an input that is no number).
  The form never computes with a number, so numbers are rationals here. Strings are
  lists of 8-bit characters; \<open>trim\<close> removes the white space of that range from both
  ends, and \<open>!v\<close> is true for the falsy values.
\<close>

datatype js_value = JUndefined | JNull | JStr string | JNum rat | JNaN

fun falsy :: "js_value \<Rightarrow> bool" where
  "falsy JUndefined = True"
| "falsy JNull = True"
| "falsy (JStr s) = (s = [])"
| "falsy (JNum n) = (n = 0)"
| "falsy JNaN = True"

definition js_whitespace :: "char \<Rightarrow> bool" where
  "js_whitespace c \<longleftrightarrow>
     c \<in> {CHR 0x09, CHR 0x0A, CHR 0x0B, CHR 0x0C, CHR 0x0D, CHR 0x20, CHR 0xA0}"

definition trim :: "string \<Rightarrow> string" where
  "trim s = rev (dropWhile js_whitespace (rev (dropWhile js_whitespace s)))"

text \<open>\<open>value.split(',')\<close>: the pieces between the commas, one piece for the empty string.\<close>

fun split_commas :: "string \<Rightarrow> string list" where
  "split_commas [] = [[]]"
| "split_commas (c # cs) =
     (if c = CHR '','' then [] # split_commas cs
      else (case split_commas cs of
              [] \<Rightarrow> [[c]]
            | piece # pieces \<Rightarrow> (c # piece) # pieces))"

text \<open>
  The rule object of the form. A property that an \<open>initialRule\<close> or a template may
  lack and that validation dereferences (\<open>name.trim()\<close>, \<open>keywords.length\<close>,
  \<open>pattern.trim()\<close>) is an option, \<open>None\<close> for \<open>undefined\<close>: dereferencing it throws a
  TypeError. \<open>ctype\<close> is the property \<open>type\<close> and \<open>cond_keywords\<close> the property
  \<open>keywords\<close>. \<open>value2\<close> is the second bound the
  specification gives a threshold condition; the form has no such property, so it
  is \<open>JUndefined\<close> in every rule the form builds. The properties \<open>action\<close>,
  \<open>schedule\<close> and \<open>notifications\<close> are not read by validation and are left out.
\<close>

record condition =
  ctype :: string
  cond_keywords :: "string list option"
  field :: js_value
  operator :: string
  threshold :: js_value
  pattern :: "string option"
  value2 :: js_value

record rule =
  name :: "string option"
  description :: string
  enabled :: bool
  condition :: condition

definition default_rule :: rule where
  "default_rule =
     \<lparr>name = Some [], description = [], enabled = True,
      condition = \<lparr>ctype = ''keyword'', cond_keywords = Some [], field = JStr [],
                   operator = ''greater_than'', threshold = JNum 0, pattern = Some [],
                   value2 = JUndefined\<rparr>\<rparr>"

text \<open>The calls of \<open>handleConditionChange(field, value)\<close> that the form makes, and the
  setter of the name field.\<close>

datatype condition_change =
    ChangeType string
  | ChangeKeywords "string list"
  | ChangeField string
  | ChangeOperator string
  | ChangeThreshold js_value
  | ChangePattern string

fun handleConditionChange :: "condition_change \<Rightarrow> rule \<Rightarrow> rule" where
  "handleConditionChange (ChangeType v) r = r\<lparr>condition := (condition r)\<lparr>ctype := v\<rparr>\<rparr>"
| "handleConditionChange (ChangeKeywords v) r = r\<lparr>condition := (condition r)\<lparr>cond_keywords := Some v\<rparr>\<rparr>"
| "handleConditionChange (ChangeField v) r = r\<lparr>condition := (condition r)\<lparr>field := JStr v\<rparr>\<rparr>"
| "handleConditionChange (ChangeOperator v) r = r\<lparr>condition := (condition r)\<lparr>operator := v\<rparr>\<rparr>"
| "handleConditionChange (ChangeThreshold v) r = r\<lparr>condition := (condition r)\<lparr>threshold := v\<rparr>\<rparr>"
| "handleConditionChange (ChangePattern v) r = r\<lparr>condition := (condition r)\<lparr>pattern := Some v\<rparr>\<rparr>"

definition setName :: "string \<Rightarrow> rule \<Rightarrow> rule" where
  "setName v r = r\<lparr>name := Some v\<rparr>"

text \<open>\<open>handleKeywordsChange\<close>: split at the commas, trim each piece, drop the empty ones.\<close>

definition handleKeywordsChange :: "string \<Rightarrow> rule \<Rightarrow> rule" where
  "handleKeywordsChange v r =
     handleConditionChange
       (ChangeKeywords (filter (\<lambda>k. k \<noteq> []) (map trim (split_commas v)))) r"

datatype js_error = TypeError

text \<open>
  \<open>validateRule\<close> collects the error messages under their keys, in the order the
  checks run, and returns whether there is none. The four checks are the source's,
  in its order.
\<close>

definition name_errors :: "rule \<Rightarrow> js_error + (string \<times> string) list" where
  "name_errors r =
     (case name r of
        None \<Rightarrow> Inl TypeError
      | Some n \<Rightarrow> Inr (if trim n = [] then [(''name'', ''Rule name is required'')] else []))"

definition keyword_errors :: "rule \<Rightarrow> js_error + (string \<times> string) list" where
  "keyword_errors r =
     (if ctype (condition r) = ''keyword'' then
        (case cond_keywords (condition r) of
           None \<Rightarrow> Inl TypeError
         | Some ks \<Rightarrow>
             Inr (if length ks = 0
                  then [(''keywords'', ''At least one keyword is required'')] else []))
      else Inr [])"

definition threshold_errors :: "rule \<Rightarrow> (string \<times> string) list" where
  "threshold_errors r =
     (if ctype (condition r) = ''threshold'' then
        (if falsy (field (condition r))
         then [(''field'', ''Field is required for threshold condition'')] else []) @
        (if threshold (condition r) = JNull \<or> threshold (condition r) = JStr []
         then [(''threshold'', ''Threshold value is required'')] else [])
      else [])"

definition pattern_errors :: "rule \<Rightarrow> js_error + (string \<times> string) list" where
  "pattern_errors r =
     (if ctype (condition r) = ''pattern'' then
        (case pattern (condition r) of
           None \<Rightarrow> Inl TypeError
         | Some p \<Rightarrow> Inr (if trim p = [] then [(''pattern'', ''Pattern is required'')] else []))
      else Inr [])"

definition validateRule :: "rule \<Rightarrow> js_error + ((string \<times> string) list \<times> bool)" where
  "validateRule r =
     (case name_errors r of
        Inl e \<Rightarrow> Inl e
      | Inr e1 \<Rightarrow>
     (case keyword_errors r of
        Inl e \<Rightarrow> Inl e
      | Inr e2 \<Rightarrow>
     (case pattern_errors r of
        Inl e \<Rightarrow> Inl e
      | Inr e4 \<Rightarrow>
          Inr (e1 @ e2 @ threshold_errors r @ e4,
               e1 @ e2 @ threshold_errors r @ e4 = []))))"

text \<open>
  \<open>handleSave\<close> and \<open>handleTest\<close> call \<open>onSave\<close> and \<open>onTest\<close> with the rule when
  validation returns true. The result is the rule handed to the callback, \<open>None\<close>
  when the callback is not reached.
\<close>

definition handleSave :: "rule \<Rightarrow> js_error + rule option" where
  "handleSave r =
     (case validateRule r of
        Inl e \<Rightarrow> Inl e
      | Inr (errors, ok) \<Rightarrow> Inr (if ok then Some r else None))"

definition handleTest :: "rule \<Rightarrow> js_error + rule option" where
  "handleTest r =
     (case validateRule r of
        Inl e \<Rightarrow> Inl e
      | Inr (errors, ok) \<Rightarrow> Inr (if ok then Some r else None))"

text \<open>
  What \<open>new RegExp(p)\<close> demands of the brackets of a pattern (the pattern grammar of
  the language): a backslash escapes the next character and may not be the last one,
  a character class opened by \<open>[\<close> runs to the next unescaped \<open>]\<close>, and outside a
  class every \<open>(\<close> has its \<open>)\<close> and no \<open>)\<close> comes without its \<open>(\<close>. A pattern that
  fails this check is a SyntaxError; the check is necessary for a pattern to be
  valid, not sufficient. The arguments are whether the scan is inside a class and
  how many groups are open.
\<close>

fun brackets_closed :: "bool \<Rightarrow> nat \<Rightarrow> string \<Rightarrow> bool" where
  "brackets_closed in_class depth [] = (\<not> in_class \<and> depth = 0)"
| "brackets_closed in_class depth [c] =
     (if c = CHR 0x5C then False
      else if in_class then c = CHR '']''  \<and> depth = 0
      else if c = CHR ''['' then False
      else if c = CHR ''('' then False
      else if c = CHR '')'' then depth = 1
      else depth = 0)"
| "brackets_closed in_class depth (c # d # cs) =
     (if c = CHR 0x5C then brackets_closed in_class depth cs
      else if in_class then brackets_closed (c \<noteq> CHR '']'') depth (d # cs)
      else if c = CHR ''['' then brackets_closed True depth (d # cs)
      else if c = CHR ''('' then brackets_closed False (Suc depth) (d # cs)
      else if c = CHR '')'' then (depth > 0 \<and> brackets_closed False (depth - 1) (d # cs))
      else brackets_closed False depth (d # cs))"

section \<open>The action preview (ActionPreview in components/common)\<close>

text \<open>
  The action object as the preview destructures it. \<open>requires_confirmation\<close> has
  the default \<open>true\<close> when the property is undefined. \<open>safety_level\<close> is the level
  the query was submitted under (QueryInput offers low, medium and high); the
  preview receives no such property and reads none, it is carried here only so that
  a statement can speak of the level. The prop \<open>action\<close> is \<open>null\<close> (\<open>None\<close>) when
  there is nothing to preview.
\<close>

datatype safety_level = Low | Medium | High

record action =
  action_type :: string
  confidence :: rat
  urgency_score :: rat
  requires_confirmation :: "bool option"
  safety_level :: safety_level

record preview_props =
  action :: "action option"
  autoConfirm :: bool

definition requires_confirmation_of :: "action \<Rightarrow> bool" where
  "requires_confirmation_of a = (case requires_confirmation a of None \<Rightarrow> True | Some b \<Rightarrow> b)"

text \<open>
  The names the module binds where the component's element is built: its imports
  from react, the component library, the icon set, the animation and date libraries,
  and the local \<open>ActionDetailCard\<close>.
\<close>

definition module_scope :: "string list" where
  "module_scope =
     [''React'', ''useState'',
      ''Box'', ''Paper'', ''Typography'', ''Button'', ''Chip'', ''Alert'',
      ''AlertTitle'', ''Stack'', ''Divider'', ''Card'', ''CardContent'',
      ''CardActions'', ''List'', ''ListItem'', ''ListItemIcon'', ''ListItemText'',
      ''Collapse'', ''IconButton'', ''LinearProgress'', ''Tooltip'', ''Dialog'',
      ''DialogTitle'', ''DialogContent'', ''DialogActions'', ''TextField'',
      ''FormControlLabel'', ''Switch'', ''Grid'', ''PlayArrow'', ''Pause'',
      ''Warning'', ''CheckCircle'', ''Error'', ''Info'', ''Schedule'', ''Lock'',
      ''LockOpen'', ''Visibility'', ''VisibilityOff'', ''History'', ''Timeline'',
      ''Security'', ''Code'', ''DataArray'', ''ArrowForward'', ''Cancel'',
      ''DoneAll'', ''Help'', ''Settings'', ''motion'', ''format'', ''parseISO'',
      ''ActionDetailCard'']"

text \<open>
  The components named by the element the component returns for an action, in the
  order of the source, which is the order in which the names are evaluated (the
  type of an element before its props and children; both branches of a conditional
  are listed). \<open>motion\<close> stands for \<open>motion.div\<close>.
\<close>

definition rendered_components :: "string list" where
  "rendered_components =
     [''motion'', ''Paper'', ''Box'', ''Box'', ''Avatar'', ''Box'', ''Typography'',
      ''Typography'', ''Stack'', ''Tooltip'', ''IconButton'', ''Settings'',
      ''Tooltip'', ''IconButton'', ''VisibilityOff'', ''Visibility'', ''Grid'',
      ''Grid'', ''ActionDetailCard'', ''Security'', ''Typography'', ''Typography'',
      ''Grid'', ''ActionDetailCard'', ''Schedule'', ''Typography'', ''Typography'',
      ''Grid'', ''ActionDetailCard'', ''Timeline'', ''Typography'', ''Typography'',
      ''Grid'', ''ActionDetailCard'', ''Lock'', ''LockOpen'', ''Typography'',
      ''Typography'', ''Alert'', ''Button'', ''Help'', ''AlertTitle'',
      ''Collapse'', ''Paper'', ''Typography'', ''Divider'', ''Grid'', ''Grid'',
      ''Typography'', ''Paper'', ''Grid'', ''Typography'', ''List'', ''ListItem'',
      ''ListItemIcon'', ''History'', ''ListItemText'', ''ListItem'',
      ''ListItemIcon'', ''DataArray'', ''ListItemText'', ''ListItem'',
      ''ListItemIcon'', ''Security'', ''ListItemText'', ''Alert'', ''AlertTitle'',
      ''LinearProgress'', ''Box'', ''Stack'', ''Button'', ''Info'', ''Button'',
      ''History'', ''Stack'', ''Button'', ''Cancel'', ''Button'', ''DoneAll'',
      ''Dialog'', ''DialogTitle'', ''Box'', ''Settings'', ''DialogContent'',
      ''Stack'', ''TextField'', ''FormControlLabel'', ''Switch'', ''TextField'',
      ''TextField'', ''TextField'', ''Alert'', ''DialogActions'', ''Button'',
      ''Button'']"

text \<open>
  A render. Without an action the component returns a placeholder (a \<open>Paper\<close> with
  two \<open>Typography\<close> lines, both in scope) before it reaches \<open>useEffect\<close>. With an
  action it registers the effect and builds the element; evaluating a name that the
  module does not bind throws a ReferenceError, and a render that throws is
  discarded: nothing is committed, so the effect never runs and no button exists.
\<close>

datatype render_error = ReferenceError string

datatype view = PlaceholderView | PreviewView

definition render :: "preview_props \<Rightarrow> render_error + view" where
  "render props =
     (case action props of
        None \<Rightarrow> Inr PlaceholderView
      | Some a \<Rightarrow>
          (case find (\<lambda>c. c \<notin> set module_scope) rendered_components of
             Some c \<Rightarrow> Inl (ReferenceError c)
           | None \<Rightarrow> Inr PreviewView))"

text \<open>
  The callbacks the preview invokes. \<open>onConfirm(action)\<close> is called from two places:
  the timer of the countdown and the button; the origin is recorded so that the two
  can be told apart.
\<close>

datatype origin = Timer | Button

datatype callback = OnConfirm origin | OnReject

record preview_state =
  countdown :: int
  calls :: "callback list"

definition initial_preview :: preview_state where
  "initial_preview = \<lparr>countdown = 30, calls = []\<rparr>"

text \<open>
  What has become of the component: its render threw, or it shows the placeholder
  (no effect, no buttons), or the preview is mounted with its state.
\<close>

datatype lifecycle = Crashed render_error | Idle | Mounted preview_state

definition mount :: "preview_props \<Rightarrow> lifecycle" where
  "mount props =
     (case render props of
        Inl e \<Rightarrow> Crashed e
      | Inr PlaceholderView \<Rightarrow> Idle
      | Inr PreviewView \<Rightarrow> Mounted initial_preview)"

text \<open>
  In a mounted preview the effect runs after every render in which \<open>autoConfirm\<close>,
  \<open>countdown\<close> or \<open>requires_confirmation\<close> changed and arms a one-second timer under
  its guard; its cleanup clears the timer. So a timer is pending exactly when the
  preview is mounted and the guard holds for the current values.
\<close>

definition timer_pending :: "preview_props \<Rightarrow> lifecycle \<Rightarrow> bool" where
  "timer_pending props life =
     (case life of
        Mounted st \<Rightarrow>
          (case action props of
             None \<Rightarrow> False
           | Some a \<Rightarrow> autoConfirm props \<and> requires_confirmation_of a \<and> countdown st > 0)
      | Crashed e \<Rightarrow> False
      | Idle \<Rightarrow> False)"

definition callbacks :: "lifecycle \<Rightarrow> callback list" where
  "callbacks life = (case life of Mounted st \<Rightarrow> calls st | Crashed e \<Rightarrow> [] | Idle \<Rightarrow> [])"

text \<open>
  What can happen while the props stay as they are: a second passes, or the user
  tries Confirm or Reject. In a mounted preview a pending timer fires when its
  second has passed: its callback decrements the countdown and calls \<open>onConfirm\<close>
  when the countdown it was armed with is 1; the buttons call \<open>onConfirm\<close> and
  \<open>onReject\<close> and touch nothing else. A component whose render threw, or that shows
  the placeholder, has neither timer nor buttons: nothing happens.
\<close>

datatype preview_event = SecondPasses | ClickConfirm | ClickReject

fun preview_step :: "preview_props \<Rightarrow> lifecycle \<Rightarrow> preview_event \<Rightarrow> lifecycle" where
  "preview_step props (Mounted st) SecondPasses =
     (if timer_pending props (Mounted st)
      then Mounted \<lparr>countdown = countdown st - 1,
                    calls = calls st @ (if countdown st = 1 then [OnConfirm Timer] else [])\<rparr>
      else Mounted st)"
| "preview_step props (Mounted st) ClickConfirm = Mounted (st\<lparr>calls := calls st @ [OnConfirm Button]\<rparr>)"
| "preview_step props (Mounted st) ClickReject = Mounted (st\<lparr>calls := calls st @ [OnReject]\<rparr>)"
| "preview_step props (Crashed e) ev = Crashed e"
| "preview_step props Idle ev = Idle"

definition preview_run :: "preview_props \<Rightarrow> preview_event list \<Rightarrow> lifecycle" where
  "preview_run props evs = foldl (preview_step props) (mount props) evs"

section \<open>The decision of a query result\<close>

text \<open>
  The decision object of a query result as the client reads it: the rule it belongs
  to, its confidence and urgency, the reason, and the flag \<open>action_required\<close>.
\<close>

record decision =
  rule_id :: nat
  d_confidence :: rat
  urgency :: rat
  reason :: string
  action_required :: bool

section \<open>The decision engine behind the API\<close>

text \<open>
  The files under src/ are the client. The Condition Evaluator, the Decision Scorer,
  the Safety Gate and the Confirmation Manager run behind the API (\<open>/api/v1/query\<close>,
  \<open>/api/v1/actions/confirm/{id}\<close>) and are not among them, so the definitions of this
  section follow the specification, sentence by sentence. Time is a count of clock
  ticks; confidences, urgencies and thresholds are rationals.
\<close>

subsection \<open>Condition Evaluator: threshold conditions\<close>

text \<open>Modelled from the spec: the operators of a threshold condition
  (\<open>gt\<close>, \<open>lt\<close>, \<open>eq\<close>, \<open>neq\<close>, \<open>between\<close>); the evaluator is missing from src/.\<close>

datatype threshold_op = Gt | Lt | Eq | Neq | Between

text \<open>Modelled from the spec: the threshold variant of \<open>Rule.condition\<close>,
  \<open>threshold{field, operator, value, value2?}\<close>; the evaluator's rule type is missing
  from src/.\<close>

record threshold_condition =
  t_field :: string
  t_operator :: threshold_op
  t_value :: rat
  t_value2 :: "rat option"

text \<open>Modelled from the spec: a value of a field of a DataPoint, numeric or string;
  the DataPoint type is missing from src/.\<close>

datatype field_value = Numeric rat | Text string

text \<open>Modelled from the spec: \<open>MatchResult{matched: bool, detail: evidence}\<close>, missing
  from src/.\<close>

record match_result =
  matched :: bool
  detail :: string

text \<open>Modelled from the spec: the error of evaluating \<open>between\<close> without \<open>value2\<close>;
  the evaluator's errors are missing from src/.\<close>

datatype evaluation_error = SecondBoundAbsent

text \<open>
  Modelled from the spec: \<open>evaluate\<close> on a threshold condition is missing from src/.
  "\<open>between\<close> requires \<open>value \<le> field \<le> value2\<close> (inclusive) and is an error if
  \<open>value2\<close> is absent"; "requires the named field to exist and be numeric; if absent,
  evaluator reports \<open>matched=false\<close> with a field missing detail"; the other operators
  compare to \<open>value\<close>.
\<close>

definition evaluate_threshold ::
  "threshold_condition \<Rightarrow> (string \<rightharpoonup> field_value) \<Rightarrow> evaluation_error + match_result" where
  "evaluate_threshold c dp =
     (if t_operator c = Between \<and> t_value2 c = None then Inl SecondBoundAbsent
      else
        (case dp (t_field c) of
           Some (Numeric x) \<Rightarrow>
             Inr \<lparr>matched =
                    (case t_operator c of
                       Gt \<Rightarrow> x > t_value c
                     | Lt \<Rightarrow> x < t_value c
                     | Eq \<Rightarrow> x = t_value c
                     | Neq \<Rightarrow> x \<noteq> t_value c
                     | Between \<Rightarrow>
                         (case t_value2 c of
                            None \<Rightarrow> False
                          | Some hi \<Rightarrow> t_value c \<le> x \<and> x \<le> hi)),
                  detail = ''compared''\<rparr>
         | _ \<Rightarrow> Inr \<lparr>matched = False, detail = ''field missing''\<rparr>))"

subsection \<open>Decision Scorer\<close>

text \<open>
  Modelled from the spec: what the engine reads of a Rule (its id, its action's type
  and parameters, its safety level and its configured urgency); the Rule Store is
  missing from src/. The parameters are kept in their canonical serialised form.
\<close>

record engine_rule =
  er_id :: nat
  er_action_type :: string
  er_parameters :: string
  er_safety_level :: "safety_level option"
  er_urgency :: "rat option"

text \<open>Modelled from the spec: \<open>externalSignal{confidence, urgency, reason}\<close> of the RAG
  collaborator, which is missing from src/.\<close>

record external_signal =
  sig_confidence :: rat
  sig_urgency :: rat
  sig_reason :: string

text \<open>Modelled from the spec: the rule-independent baseline (0.5) of the scorer,
  which is missing from src/.\<close>

definition baseline :: rat where
  "baseline = 1 / 2"

text \<open>
  Modelled from the spec: \<open>score(matchResult, rule, externalSignal?)\<close>, missing from
  src/. "Base confidence = 1.0 for exact match (boolean conditions have no partial
  credit) unless an externalSignal is supplied, in which case confidence =
  externalSignal.confidence. urgency defaults to a per-rule configured value, else 5.
  action_required = confidence \<ge> rule-independent baseline (0.5)."
\<close>

definition score :: "match_result \<Rightarrow> engine_rule \<Rightarrow> external_signal option \<Rightarrow> decision" where
  "score m r signal =
     (let c = (case signal of
                 Some sg \<Rightarrow> sig_confidence sg
               | None \<Rightarrow> if matched m then 1 else 0)
      in \<lparr>rule_id = er_id r,
          d_confidence = c,
          urgency = (case signal of
                       Some sg \<Rightarrow> sig_urgency sg
                     | None \<Rightarrow> (case er_urgency r of Some u \<Rightarrow> u | None \<Rightarrow> 5)),
          reason = (case signal of Some sg \<Rightarrow> sig_reason sg | None \<Rightarrow> detail m),
          action_required = (c \<ge> baseline)\<rparr>)"

subsection \<open>Safety Gate\<close>

text \<open>Modelled from the spec: the Safety Policy (\<open>confidence_threshold\<close>,
  \<open>rate_limit_window\<close>, \<open>rate_limit_max\<close>, \<open>dedup_window\<close>, \<open>default_safety_level\<close>),
  missing from src/.\<close>

record policy =
  confidence_threshold :: rat
  rate_limit_window :: nat
  rate_limit_max :: nat
  dedup_window :: nat
  default_safety_level :: safety_level

text \<open>Modelled from the spec: the states of \<open>Action.status\<close> in the two state
  machines of the engine, missing from src/.\<close>

datatype action_status =
    Pending | RequiresConfirmation | Confirmed | Rejected | Expired
  | Executing | Executed | Failed

text \<open>Modelled from the spec: a row of the Action Store (\<open>id\<close>, \<open>rule_id\<close>, \<open>type\<close>,
  \<open>parameters\<close>, \<open>status\<close>, \<open>created_at\<close>), missing from src/.\<close>

record action_row =
  row_id :: nat
  row_rule_id :: nat
  row_type :: string
  row_parameters :: string
  row_status :: action_status
  created_at :: nat

text \<open>Modelled from the spec: the outcomes of the Safety Gate (\<open>blocked\<close> with its
  reason, \<open>rate_limited\<close>, or an accepted action), missing from src/.\<close>

datatype gate_outcome = Blocked string | RateLimited | Accepted action_row

text \<open>Modelled from the spec: the rate-limit key \<open>(rule_id, action.type)\<close> of the gate,
  which is missing from src/.\<close>

definition same_key :: "nat \<Rightarrow> string \<Rightarrow> action_row \<Rightarrow> bool" where
  "same_key rid ty a \<longleftrightarrow> row_rule_id a = rid \<and> row_type a = ty"

text \<open>Modelled from the spec: the sliding window of the gate (missing from src/): an
  accepted action is within the window when it is younger than the window's length.\<close>

definition recent :: "nat \<Rightarrow> nat \<Rightarrow> action_row \<Rightarrow> bool" where
  "recent now window a \<longleftrightarrow> now < created_at a + window"

text \<open>Modelled from the spec: the "count of accepted actions for that key within
  \<open>rate_limit_window\<close>" of the gate, which is missing from src/.\<close>

definition accepted_in_window :: "policy \<Rightarrow> nat \<Rightarrow> engine_rule \<Rightarrow> action_row list \<Rightarrow> nat" where
  "accepted_in_window pol now r store =
     length (filter (\<lambda>a. same_key (er_id r) (er_action_type r) a \<and>
                         recent now (rate_limit_window pol) a) store)"

text \<open>Modelled from the spec: duplicate suppression of the gate (missing from src/).
  The fingerprint is the rule id, the action type and the canonical parameters.\<close>

definition duplicate :: "policy \<Rightarrow> nat \<Rightarrow> engine_rule \<Rightarrow> action_row list \<Rightarrow> bool" where
  "duplicate pol now r store =
     list_ex (\<lambda>a. same_key (er_id r) (er_action_type r) a \<and>
                  row_parameters a = er_parameters r \<and>
                  recent now (dedup_window pol) a) store"

text \<open>
  Modelled from the spec: the Safety Gate, missing from src/. "Sequential checks, each
  producing a terminal outcome if it fails": the confidence check (\<open>blocked\<close>), the
  rate limit (\<open>rate_limited\<close>), duplicate suppression (\<open>blocked\<close>, reason duplicate),
  then routing by safety level: low gives status \<open>pending\<close>, medium and high give
  \<open>requires_confirmation\<close>. On acceptance a row is created in the Action Store.
\<close>

definition safety_gate ::
  "policy \<Rightarrow> nat \<Rightarrow> engine_rule \<Rightarrow> decision \<Rightarrow> action_row list
     \<Rightarrow> gate_outcome \<times> action_row list" where
  "safety_gate pol now r d store =
     (if d_confidence d < confidence_threshold pol then (Blocked ''confidence'', store)
      else if accepted_in_window pol now r store \<ge> rate_limit_max pol then (RateLimited, store)
      else if duplicate pol now r store then (Blocked ''duplicate'', store)
      else
        (let row = \<lparr>row_id = length store,
                    row_rule_id = er_id r,
                    row_type = er_action_type r,
                    row_parameters = er_parameters r,
                    row_status =
                      (case (case er_safety_level r of
                               None \<Rightarrow> default_safety_level pol
                             | Some l \<Rightarrow> l) of
                         Low \<Rightarrow> Pending
                       | Medium \<Rightarrow> RequiresConfirmation
                       | High \<Rightarrow> RequiresConfirmation),
                    created_at = now\<rparr>
         in (Accepted row, store @ [row])))"

text \<open>Modelled from the spec: the gate over a sequence of arrivals (the engine's
  pipeline is missing from src/): the time of arrival, the rule and its decision, one
  after the other on one store.\<close>

fun gate_run :: "policy \<Rightarrow> (nat \<times> engine_rule \<times> decision) list \<Rightarrow> action_row list \<Rightarrow> action_row list" where
  "gate_run pol [] store = store"
| "gate_run pol ((now, r, d) # rest) store = gate_run pol rest (snd (safety_gate pol now r d store))"

text \<open>Modelled from the spec: the rolling window of the rate-limiting property (the
  Action Store is missing from src/): the number of accepted actions of one key created
  within \<open>[start, start + W)\<close>.\<close>

definition created_within :: "nat \<Rightarrow> string \<Rightarrow> nat \<Rightarrow> nat \<Rightarrow> action_row list \<Rightarrow> nat" where
  "created_within rid ty start window store =
     length (filter (\<lambda>a. same_key rid ty a \<and>
                         start \<le> created_at a \<and> created_at a < start + window) store)"

subsection \<open>Confirmation Manager\<close>

text \<open>
  Modelled from the spec: the state of the Confirmation Manager, missing from src/:
  the rows of the Action Store and the actions handed off to the Action Executor, in
  the order of the hand-offs.
\<close>

record manager =
  rows :: "action_row list"
  handed_off :: "nat list"

text \<open>Modelled from the spec: the body \<open>{confirm: bool}\<close> of a call of
  \<open>POST /actions/confirm/{id}\<close>, whose handler is missing from src/.\<close>

datatype call = Confirm | Reject

text \<open>Modelled from the spec: the result of a call of the Confirmation Manager (missing
  from src/): it resolved the action, or found it already resolved, with the state the
  action is in; "a benign already resolved result, not a hard error".\<close>

datatype resolution = ResolvedNow action_status | AlreadyResolved action_status

text \<open>Modelled from the spec: the error of a call that names no action of the store;
  the manager is missing from src/.\<close>

datatype manager_error = UnknownAction

text \<open>Modelled from the spec: the state a call moves a waiting action to, \<open>confirmed\<close>
  or \<open>rejected\<close>; the manager is missing from src/.\<close>

definition target :: "call \<Rightarrow> action_status" where
  "target c = (case c of Confirm \<Rightarrow> Confirmed | Reject \<Rightarrow> Rejected)"

text \<open>Modelled from the spec: the status of the action with a given id in the Action
  Store, which is missing from src/.\<close>

definition status_of :: "nat \<Rightarrow> manager \<Rightarrow> action_status option" where
  "status_of aid m = map_option row_status (find (\<lambda>a. row_id a = aid) (rows m))"

text \<open>
  Modelled from the spec: the confirm/reject call of the Confirmation Manager
  (\<open>POST /actions/confirm/{id}\<close>), missing from src/. An action in
  \<open>requires_confirmation\<close> becomes \<open>confirmed\<close> (and is handed off to the executor) or
  \<open>rejected\<close>; "first call wins, subsequent calls are no-ops returning the existing
  terminal state", "reported as a benign already resolved result, not a hard error".
\<close>

definition resolve :: "nat \<Rightarrow> call \<Rightarrow> manager \<Rightarrow> (manager_error + resolution) \<times> manager" where
  "resolve aid c m =
     (case status_of aid m of
        None \<Rightarrow> (Inl UnknownAction, m)
      | Some st \<Rightarrow>
          if st = RequiresConfirmation then
            (Inr (ResolvedNow (target c)),
             \<lparr>rows = map (\<lambda>a. if row_id a = aid then a\<lparr>row_status := target c\<rparr> else a) (rows m),
              handed_off = handed_off m @ (if c = Confirm then [aid] else [])\<rparr>)
          else (Inr (AlreadyResolved st), m))"

text \<open>Modelled from the spec: a sequence of calls on one action of the Confirmation
  Manager (missing from src/): the results in order and the final state.\<close>

fun resolve_all :: "nat \<Rightarrow> call list \<Rightarrow> manager \<Rightarrow> (manager_error + resolution) list \<times> manager" where
  "resolve_all aid [] m = ([], m)"
| "resolve_all aid (c # cs) m =
     (let (res, m') = resolve aid c m;
          (ress, m'') = resolve_all aid cs m'
      in (res # ress, m''))"

subsection \<open>A small deployment\<close>

text \<open>One alert per minute for each key, confirmation threshold one half, and a rule
  of safety level high; the closed instances of the theorems below are stated on it.\<close>

definition demo_policy :: policy where
  "demo_policy =
     \<lparr>confidence_threshold = 1 / 2, rate_limit_window = 60, rate_limit_max = 1,
      dedup_window = 10, default_safety_level = Medium\<rparr>"

definition demo_rule :: engine_rule where
  "demo_rule =
     \<lparr>er_id = 7, er_action_type = ''alert'', er_parameters = ''{}'',
      er_safety_level = Some High, er_urgency = None\<rparr>"

definition demo_decision :: "rat \<Rightarrow> decision" where
  "demo_decision c =
     \<lparr>rule_id = 7, d_confidence = c, urgency = 5, reason = ''match'', action_required = True\<rparr>"

definition demo_row :: action_row where
  "demo_row =
     \<lparr>row_id = 0, row_rule_id = 7, row_type = ''alert'', row_parameters = ''{}'',
      row_status = RequiresConfirmation, created_at = 100\<rparr>"

section \<open>Bounded histories of the store\<close>

lemma prepend_to_array:
  "array_within (Suc n) h \<Longrightarrow> prepend_to n x h = Inr (Items (Item x # take n (entries h)))"
  "array_within (Suc n) h \<Longrightarrow> array_within (Suc n) (Items (Item x # take n (entries h)))"
  by (cases h; simp add: array_within_def prepend_to_def entries_def)+

lemma call_operation_intact:
  assumes "store_intact s" and "op_within_bounds x"
  shows "\<exists>s'. call_operation x s = Inr s' \<and> store_intact s'"
proof (cases x)
  case (UpdateSystemStatus p)
  with assms show ?thesis
    by (simp add: store_intact_def call_operation_def histories_bounded_def
        updateSystemStatus_def set_state_def or_else_def patch_within_bounds_def
        split: option.splits)
next
  case (AddDataStream d)
  from assms have "array_within (Suc 49) (dataStreams s)"
    by (simp add: store_intact_def histories_bounded_def)
  from prepend_to_array [OF this, of d] AddDataStream assms show ?thesis
    by (simp add: store_intact_def call_operation_def addDataStream_def histories_bounded_def)
next
  case (AddAction a)
  from assms have "array_within (Suc 99) (actions s)"
    by (simp add: store_intact_def histories_bounded_def)
  from prepend_to_array [OF this, of a] AddAction assms show ?thesis
    by (simp add: store_intact_def call_operation_def addAction_def histories_bounded_def)
next
  case (AddQuery q)
  from assms have "array_within (Suc 49) (queries s)"
    by (simp add: store_intact_def histories_bounded_def)
  from prepend_to_array [OF this, of q] AddQuery assms show ?thesis
    by (simp add: store_intact_def call_operation_def addQuery_def histories_bounded_def)
qed (use assms in \<open>simp_all add: store_intact_def call_operation_def histories_bounded_def
      toggleSystem_def setAutoConfirm_def updateNotificationPrefs_def clearHistory_def
      array_within_def\<close>)

lemma run_store_intact:
  "store_intact s \<Longrightarrow> \<forall>x \<in> set xs. op_within_bounds x
     \<Longrightarrow> fst (run_store xs s) = [] \<and> store_intact (snd (run_store xs s))"
proof (induction xs arbitrary: s)
  case Nil
  then show ?case by simp
next
  case (Cons x xs)
  then obtain s' where step: "call_operation x s = Inr s'" and "store_intact s'"
    using call_operation_intact [of s x] by auto
  with Cons show ?case by simp
qed

lemma initial_store_intact: "store_intact initial_store"
  by (simp add: store_intact_def histories_bounded_def initial_store_def array_within_def)

text \<open>A status object with \<open>actions: null\<close> carries no list at all, and the next
  \<open>addAction\<close> throws: the run records the exception and the history stays \<open>null\<close>.
  A status object with a key \<open>addAction\<close> makes every later \<open>addAction\<close> throw.\<close>

lemma addAction_after_null_status:
  "run_store [UpdateSystemStatus (no_patch\<lparr>p_actions := Some NoSlice\<rparr>), AddAction (1::nat)]
     (initial_store :: (nat, nat, nat) store)
   = ([SliceTypeError], initial_store\<lparr>actions := NoSlice\<rparr>)"
  by (simp add: call_operation_def updateSystemStatus_def set_state_def or_else_def no_patch_def
      initial_store_def addAction_def prepend_to_def)

lemma addAction_after_overwrite:
  "run_store [UpdateSystemStatus (no_patch\<lparr>p_operations := [''addAction'']\<rparr>), AddAction (1::nat)]
     (initial_store :: (nat, nat, nat) store)
   = ([NotAFunction], initial_store\<lparr>overwritten := [''addAction'']\<rparr>)"
  by (simp add: call_operation_def updateSystemStatus_def set_state_def or_else_def no_patch_def
      initial_store_def)

text \<open>
  Claim C9, as amended. Starting from the initial store, along every sequence of
  \<open>toggleSystem\<close>, \<open>addDataStream\<close>, \<open>addAction\<close>, \<open>addQuery\<close>, \<open>setAutoConfirm\<close>,
  \<open>updateNotificationPrefs\<close>, \<open>clearHistory\<close> and of \<open>updateSystemStatus\<close> calls whose
  status object has no key that names an operation of the store and gives each of
  the keys \<open>dataStreams\<close>, \<open>actions\<close>, \<open>queries\<close> that it carries an array within the
  bound of that history, no call throws and the state reached holds arrays of at
  most 100 actions, 50 data streams and 50 queries; and in every such state each of
  the three add operations succeeds and puts the new entry at the front, followed
  by the first 99 (or 49) older entries in their order.
\<close>

theorem store_histories_bounded:
  assumes "\<forall>x \<in> set xs. op_within_bounds x"
  shows "fst (run_store xs initial_store) = [] \<and>
         histories_bounded (snd (run_store xs initial_store)) \<and>
         call_operation (AddAction a) (snd (run_store xs initial_store))
           = Inr ((snd (run_store xs initial_store))
                    \<lparr>actions := Items (Item a # take 99
                        (entries (actions (snd (run_store xs initial_store)))))\<rparr>) \<and>
         call_operation (AddDataStream d) (snd (run_store xs initial_store))
           = Inr ((snd (run_store xs initial_store))
                    \<lparr>dataStreams := Items (Item d # take 49
                        (entries (dataStreams (snd (run_store xs initial_store)))))\<rparr>) \<and>
         call_operation (AddQuery q) (snd (run_store xs initial_store))
           = Inr ((snd (run_store xs initial_store))
                    \<lparr>queries := Items (Item q # take 49
                        (entries (queries (snd (run_store xs initial_store)))))\<rparr>)"
proof -
  let ?s = "snd (run_store xs initial_store)"
  from run_store_intact [OF initial_store_intact assms]
  have noerr: "fst (run_store xs initial_store) = []" and b: "store_intact ?s"
    by simp_all
  from b have "array_within (Suc 99) (actions ?s)" "array_within (Suc 49) (dataStreams ?s)"
    "array_within (Suc 49) (queries ?s)" "overwritten ?s = []" "histories_bounded ?s"
    by (simp_all add: store_intact_def histories_bounded_def)
  with noerr show ?thesis
    by (simp add: call_operation_def addAction_def addDataStream_def addQuery_def
        prepend_to_array(1))
qed

theorem store_histories_bounded_witness:
  "list_all op_within_bounds
     [AddAction (1::nat), AddQuery (2::nat),
      UpdateSystemStatus
        (no_patch\<lparr>p_isActive := Some False, p_queries := Some (Items [Item 4, Item 5])\<rparr>),
      AddDataStream (3::nat)] \<and>
   run_store
     [AddAction (1::nat), AddQuery (2::nat),
      UpdateSystemStatus
        (no_patch\<lparr>p_isActive := Some False, p_queries := Some (Items [Item 4, Item 5])\<rparr>),
      AddDataStream (3::nat)] initial_store
     = ([], initial_store\<lparr>isActive := False, dataStreams := Items [Item 3],
                          actions := Items [Item 1], queries := Items [Item 4, Item 5]\<rparr>) \<and>
   call_operation (AddAction 7)
     (snd (run_store
        [AddAction (1::nat), AddQuery (2::nat),
         UpdateSystemStatus
           (no_patch\<lparr>p_isActive := Some False, p_queries := Some (Items [Item 4, Item 5])\<rparr>),
         AddDataStream (3::nat)] initial_store))
     = Inr (initial_store\<lparr>isActive := False, dataStreams := Items [Item 3],
                          actions := Items [Item 7, Item 1],
                          queries := Items [Item 4, Item 5]\<rparr>)"
  using store_histories_bounded
    [of "[AddAction (1::nat), AddQuery (2::nat),
          UpdateSystemStatus
            (no_patch\<lparr>p_isActive := Some False, p_queries := Some (Items [Item 4, Item 5])\<rparr>),
          AddDataStream (3::nat)]" 7]
  by (simp add: call_operation_def updateSystemStatus_def set_state_def or_else_def no_patch_def
      patch_within_bounds_def array_within_def prepend_to_def entries_def
      addAction_def addQuery_def addDataStream_def initial_store_def)

text \<open>
  Claim C9 as stated fails: \<open>updateSystemStatus\<close> is one of the store's update
  operations and merges any key of its argument, so one call with an \<open>actions\<close> key
  of 101 entries leaves the initial store with 101 actions.
\<close>

theorem store_histories_counterexample:
  "\<not> histories_bounded
       (snd (run_store
          [UpdateSystemStatus (no_patch\<lparr>p_actions := Some (Items (replicate 101 (Item (0::nat))))\<rparr>)]
          (initial_store :: (nat, nat, nat) store)))"
  by (simp add: call_operation_def histories_bounded_def updateSystemStatus_def set_state_def
      or_else_def no_patch_def initial_store_def array_within_def)

text \<open>The socket handlers of the system context keep the same bounds on their lists.\<close>

lemma findIndex_less: "findIndex P xs = Some i \<Longrightarrow> i < length xs \<and> P (xs ! i)"
  by (induction xs arbitrary: i) (auto split: if_splits)

lemma context_handlers_bounded:
  "length prev \<le> 50 \<Longrightarrow> length (handleDataUpdate data prev) \<le> 50"
  "length acts \<le> 100 \<Longrightarrow> length (handleActionExecuted a acts) \<le> 100"
  by (auto simp: handleDataUpdate_def handleActionExecuted_def split: option.splits)

section \<open>Frame of updateRule and deleteRule\<close>

lemma updateRule_failure: "updateRule (Inl e) ruleId updates rules = (rules, Inl e)"
  by (simp add: updateRule_def)

lemma deleteRule_failure: "deleteRule (Inl e) ruleId rules = (rules, Inl e)"
  by (simp add: deleteRule_def)

lemma deleteRule_subseq: "subseq (fst (deleteRule response ruleId rules)) rules"
  by (cases response) (simp_all add: deleteRule_def)

text \<open>
  Claim C10. After a successful \<open>updateRule(ruleId, updates)\<close> the list has the same
  length, and at every position the rule is the old one merged with \<open>updates\<close> when
  its id equals \<open>ruleId\<close> and the old rule itself otherwise. After a successful
  \<open>deleteRule(ruleId)\<close> no rule with that id is left, every rule with another id is
  still there, and the rules with another id appear exactly as before, in their order.
\<close>

theorem updateRule_deleteRule_frame:
  "length (fst (updateRule (Inr resp) ruleId updates rules)) = length rules \<and>
   (\<forall>i < length rules.
      fst (updateRule (Inr resp) ruleId updates rules) ! i
        = (if (rules ! i) ''id'' = ruleId then rules ! i ++ updates else rules ! i)) \<and>
   (\<forall>rule \<in> set (fst (deleteRule (Inr resp') ruleId rules)). rule ''id'' \<noteq> ruleId) \<and>
   (\<forall>rule \<in> set rules.
      rule ''id'' \<noteq> ruleId \<longrightarrow> rule \<in> set (fst (deleteRule (Inr resp') ruleId rules))) \<and>
   filter (\<lambda>rule. rule ''id'' \<noteq> ruleId) (fst (deleteRule (Inr resp') ruleId rules))
     = filter (\<lambda>rule. rule ''id'' \<noteq> ruleId) rules"
  by (simp add: updateRule_def deleteRule_def)

theorem updateRule_deleteRule_frame_witness:
  "(fst (updateRule (Inr ()) (Some (1::nat)) [''name'' \<mapsto> 9]
          [[''id'' \<mapsto> 1, ''name'' \<mapsto> 5], [''id'' \<mapsto> 2, ''name'' \<mapsto> 6]]) ! 0) ''name'' = Some 9 \<and>
   (fst (updateRule (Inr ()) (Some (1::nat)) [''name'' \<mapsto> 9]
          [[''id'' \<mapsto> 1, ''name'' \<mapsto> 5], [''id'' \<mapsto> 2, ''name'' \<mapsto> 6]]) ! 1) ''name'' = Some 6 \<and>
   [''id'' \<mapsto> 2, ''name'' \<mapsto> 6]
     \<in> set (fst (deleteRule (Inr ()) (Some (1::nat))
          [[''id'' \<mapsto> 1, ''name'' \<mapsto> 5], [''id'' \<mapsto> 2, ''name'' \<mapsto> 6]]))"
  using updateRule_deleteRule_frame
    [of "()" "Some (1::nat)" "[''name'' \<mapsto> 9]"
        "[[''id'' \<mapsto> 1, ''name'' \<mapsto> 5], [''id'' \<mapsto> 2, ''name'' \<mapsto> 6]]" "()"]
  by (simp add: updateRule_def deleteRule_def)

section \<open>Validation in the rule form\<close>

lemmas validate_defs =
  validateRule_def name_errors_def keyword_errors_def threshold_errors_def pattern_errors_def

lemma handleKeywordsChange_no_blank:
  "cond_keywords (condition (handleKeywordsChange v r)) = Some ks \<Longrightarrow> [] \<notin> set ks"
  by (auto simp: handleKeywordsChange_def)

lemma handleConditionChange_value2:
  "value2 (condition (handleConditionChange ch r)) = value2 (condition r)"
  by (cases ch) simp_all

text \<open>
  Claim C5. A rule whose condition type is \<open>keyword\<close> and whose keyword list is empty
  does not pass the form: \<open>handleSave\<close> and \<open>handleTest\<close> never reach \<open>onSave\<close> and
  \<open>onTest\<close> (they end in a TypeError when the name is undefined, and without a call
  otherwise), and whenever \<open>validateRule\<close> returns, it returns false with the error
  "At least one keyword is required" under the key \<open>keywords\<close>.
\<close>

theorem empty_keywords_rejected:
  assumes "ctype (condition r) = ''keyword''" and "cond_keywords (condition r) = Some []"
  shows "(handleSave r = Inl TypeError \<or> handleSave r = Inr None) \<and>
         (handleTest r = Inl TypeError \<or> handleTest r = Inr None) \<and>
         (\<forall>errors ok. validateRule r = Inr (errors, ok) \<longrightarrow>
            \<not> ok \<and> (''keywords'', ''At least one keyword is required'') \<in> set errors)"
  using assms
  by (auto simp: handleSave_def handleTest_def validate_defs split: sum.splits option.splits)

theorem empty_keywords_rejected_witness:
  "ctype (condition (setName ''tsla'' default_rule)) = ''keyword'' \<and>
   cond_keywords (condition (setName ''tsla'' default_rule)) = Some [] \<and>
   handleSave (setName ''tsla'' default_rule) = Inr None \<and>
   validateRule (setName ''tsla'' default_rule)
     = Inr ([(''keywords'', ''At least one keyword is required'')], False)"
  using empty_keywords_rejected [of "setName ''tsla'' default_rule"]
  by (simp add: handleSave_def validate_defs setName_def default_rule_def trim_def
      js_whitespace_def)

text \<open>
  Claim C6, as amended. For a rule whose condition type is \<open>pattern\<close>, validation at
  save time looks at the pattern only through \<open>pattern.trim()\<close>: it rejects the rule
  with "Pattern is required" exactly when the pattern is empty or white space, and,
  the name being given, accepts every other pattern. The syntax of the pattern is not
  examined.
\<close>

theorem pattern_rule_validation:
  assumes "ctype (condition r) = ''pattern''"
    and "name r = Some n" and "pattern (condition r) = Some p"
  shows "validateRule r =
           Inr ((if trim n = [] then [(''name'', ''Rule name is required'')] else []) @
                (if trim p = [] then [(''pattern'', ''Pattern is required'')] else []),
                trim n \<noteq> [] \<and> trim p \<noteq> [])"
  using assms by (auto simp: validate_defs)

theorem pattern_rule_validation_witness:
  "validateRule
     (handleConditionChange (ChangePattern ''  '')
        (handleConditionChange (ChangeType ''pattern'') (setName ''ticker'' default_rule)))
   = Inr ([(''pattern'', ''Pattern is required'')], False)"
  using pattern_rule_validation
    [of "handleConditionChange (ChangePattern ''  '')
           (handleConditionChange (ChangeType ''pattern'') (setName ''ticker'' default_rule))"
        "''ticker''" "''  ''"]
  by (simp add: setName_def default_rule_def trim_def js_whitespace_def)

text \<open>
  Claim C6 as stated fails. The pattern \<open>(\<close> opens a group that is never closed, so it
  is no valid regular expression; the form built from its own default by naming the
  rule, choosing the pattern type and typing \<open>(\<close> passes validation, and \<open>handleSave\<close>
  hands the rule to \<open>onSave\<close>.
\<close>

theorem invalid_pattern_saved:
  "\<not> brackets_closed False 0 ''('' \<and>
   handleSave
     (handleConditionChange (ChangePattern ''('')
        (handleConditionChange (ChangeType ''pattern'') (setName ''ticker'' default_rule)))
   = Inr (Some \<lparr>name = Some ''ticker'', description = [], enabled = True,
                condition = \<lparr>ctype = ''pattern'', cond_keywords = Some [], field = JStr [],
                             operator = ''greater_than'', threshold = JNum 0,
                             pattern = Some ''('', value2 = JUndefined\<rparr>\<rparr>)"
  by (simp add: handleSave_def validate_defs setName_def default_rule_def trim_def
      js_whitespace_def)

text \<open>
  Claim C7, the code at the failing input. The form built from its own default by
  naming the rule and choosing the threshold type, the field \<open>price\<close> and the operator
  \<open>between\<close> passes validation, and \<open>handleSave\<close> hands \<open>onSave\<close> a between rule
  with the single bound \<open>threshold = 0\<close> and no second bound.
\<close>

theorem between_rule_saved_without_value2:
  "handleSave
     (handleConditionChange (ChangeOperator ''between'')
        (handleConditionChange (ChangeField ''price'')
           (handleConditionChange (ChangeType ''threshold'') (setName ''band'' default_rule))))
   = Inr (Some \<lparr>name = Some ''band'', description = [], enabled = True,
                condition = \<lparr>ctype = ''threshold'', cond_keywords = Some [],
                             field = JStr ''price'', operator = ''between'',
                             threshold = JNum 0, pattern = Some [],
                             value2 = JUndefined\<rparr>\<rparr>)"
  by (simp add: handleSave_def validate_defs setName_def default_rule_def trim_def
      js_whitespace_def)

section \<open>The countdown of the action preview\<close>

text \<open>The header of the preview names \<open>Avatar\<close>, which the module never imports: the
  first render with an action throws.\<close>

lemma render_with_action:
  "action props = Some a \<Longrightarrow> render props = Inl (ReferenceError ''Avatar'')"
  by (simp add: render_def module_scope_def rendered_components_def)

lemma mount_with_action:
  "action props = Some a \<Longrightarrow> mount props = Crashed (ReferenceError ''Avatar'')"
  by (simp add: mount_def render_with_action)

lemma mount_without_action: "action props = None \<Longrightarrow> mount props = Idle"
  by (simp add: mount_def render_def)

lemma crashed_stays: "foldl (preview_step props) (Crashed e) evs = Crashed e"
  by (induction evs) simp_all

lemma idle_stays: "foldl (preview_step props) Idle evs = Idle"
  by (induction evs) simp_all

text \<open>Whatever the props, the preview never invokes a callback and never has a timer
  pending.\<close>

lemma preview_never_calls:
  "callbacks (preview_run props evs) = [] \<and> \<not> timer_pending props (preview_run props evs)"
proof (cases "action props")
  case None
  then show ?thesis
    by (simp add: preview_run_def mount_without_action idle_stays callbacks_def
        timer_pending_def)
next
  case (Some a)
  then show ?thesis
    by (simp add: preview_run_def mount_with_action crashed_stays callbacks_def
        timer_pending_def)
qed

text \<open>The effect and the buttons of a preview that were mounted: the guard of the
  timer reads \<open>autoConfirm\<close>, \<open>requires_confirmation\<close> and the countdown, not the
  safety level, and a press leaves the countdown alone.\<close>

lemma mounted_second_passes:
  assumes "action props = Some a" and "autoConfirm props" and "requires_confirmation_of a"
    and "countdown st > 0"
  shows "preview_step props (Mounted st) SecondPasses
           = Mounted \<lparr>countdown = countdown st - 1,
                      calls = calls st @ (if countdown st = 1 then [OnConfirm Timer] else [])\<rparr>"
  using assms by (simp add: timer_pending_def)

lemma mounted_press:
  "preview_step props (Mounted st) ClickReject = Mounted st' \<Longrightarrow> countdown st' = countdown st"
  by auto



text \<open>
  Claim C4, the code at the failing input. An action that requires confirmation,
  given to the preview with \<open>autoConfirm\<close> on, and thirty seconds without a confirm
  or a reject. The render throws at \<open>Avatar\<close>: no countdown starts, no timer is
  pending and \<open>onConfirm\<close> is never called, so the action is not confirmed when the
  thirty seconds are over.
\<close>

theorem countdown_never_starts:
  "mount
     \<lparr>action = Some \<lparr>action_type = ''alert'', confidence = 9 / 10, urgency_score = 8,
                     requires_confirmation = Some True, safety_level = Medium\<rparr>,
      autoConfirm = True\<rparr>
   = Crashed (ReferenceError ''Avatar'') \<and>
   preview_run
     \<lparr>action = Some \<lparr>action_type = ''alert'', confidence = 9 / 10, urgency_score = 8,
                     requires_confirmation = Some True, safety_level = Medium\<rparr>,
      autoConfirm = True\<rparr>
     (replicate 30 SecondPasses)
   = Crashed (ReferenceError ''Avatar'') \<and>
   callbacks (preview_run
     \<lparr>action = Some \<lparr>action_type = ''alert'', confidence = 9 / 10, urgency_score = 8,
                     requires_confirmation = Some True, safety_level = Medium\<rparr>,
      autoConfirm = True\<rparr>
     (replicate 30 SecondPasses)) = []"
  by (simp add: preview_run_def mount_with_action crashed_stays callbacks_def)

section \<open>The engine: scorer, rate limit and confirmation\<close>

text \<open>
  Claim C8. For every decision the scorer produces, \<open>action_required\<close> holds exactly
  when the decision's confidence is at least 0.5. The scorer has no access to the
  policy: the threshold of the Safety Gate is not among its arguments.
\<close>

theorem action_required_iff_baseline:
  "action_required (score m r signal) \<longleftrightarrow> d_confidence (score m r signal) \<ge> 1 / 2"
  by (simp add: score_def Let_def baseline_def)

text \<open>With operator \<open>between\<close> the evaluator reports an error when the second bound
  is absent, and otherwise matches a numeric field exactly when it lies between the
  two bounds, both included.\<close>

lemma evaluate_between:
  assumes "t_operator c = Between"
  shows "(t_value2 c = None \<longrightarrow> evaluate_threshold c dp = Inl SecondBoundAbsent) \<and>
         (\<forall>hi x. t_value2 c = Some hi \<and> dp (t_field c) = Some (Numeric x) \<longrightarrow>
            evaluate_threshold c dp
              = Inr \<lparr>matched = (t_value c \<le> x \<and> x \<le> hi), detail = ''compared''\<rparr>)"
  using assms by (auto simp: evaluate_threshold_def)

lemma filter_length_mono:
  "(\<And>x. x \<in> set xs \<Longrightarrow> P x \<Longrightarrow> Q x) \<Longrightarrow> length (filter P xs) \<le> length (filter Q xs)"
  by (induction xs) auto

text \<open>Every action created in a window that contains the present moment is younger
  than the window's length, so the gate's count covers the window.\<close>

lemma created_within_le_accepted:
  assumes "start \<le> now" and "now < start + rate_limit_window pol"
  shows "created_within (er_id r) (er_action_type r) start (rate_limit_window pol) store
           \<le> accepted_in_window pol now r store"
  unfolding created_within_def accepted_in_window_def
  by (rule filter_length_mono) (use assms in \<open>auto simp: recent_def\<close>)

lemma safety_gate_bounded:
  assumes "\<forall>rid ty start.
             created_within rid ty start (rate_limit_window pol) store \<le> rate_limit_max pol"
  shows "created_within rid ty start (rate_limit_window pol) (snd (safety_gate pol now r d store))
           \<le> rate_limit_max pol"
proof (cases "fst (safety_gate pol now r d store)")
  case (Blocked why)
  then have "snd (safety_gate pol now r d store) = store"
    by (auto simp: safety_gate_def Let_def split: if_splits)
  with assms show ?thesis by simp
next
  case RateLimited
  then have "snd (safety_gate pol now r d store) = store"
    by (auto simp: safety_gate_def Let_def split: if_splits)
  with assms show ?thesis by simp
next
  case (Accepted row)
  then have below: "accepted_in_window pol now r store < rate_limit_max pol"
    and row: "row_rule_id row = er_id r" "row_type row = er_action_type r" "created_at row = now"
    and appended: "snd (safety_gate pol now r d store) = store @ [row]"
    by (auto simp: safety_gate_def Let_def split: if_splits)
  show ?thesis
  proof (cases "same_key rid ty row \<and> start \<le> now \<and> now < start + rate_limit_window pol")
    case True
    then have key: "rid = er_id r" "ty = er_action_type r"
      using row by (auto simp: same_key_def)
    have "created_within rid ty start (rate_limit_window pol) store
            \<le> accepted_in_window pol now r store"
      unfolding key using True by (intro created_within_le_accepted) auto
    with below
    have "created_within rid ty start (rate_limit_window pol) store < rate_limit_max pol"
      by simp
    then show ?thesis
      using appended by (simp add: created_within_def)
  next
    case False
    then have "created_within rid ty start (rate_limit_window pol) (store @ [row])
                 = created_within rid ty start (rate_limit_window pol) store"
      using row by (auto simp: created_within_def)
    with assms appended show ?thesis by simp
  qed
qed

lemma gate_run_bounded:
  assumes "\<forall>rid ty start.
             created_within rid ty start (rate_limit_window pol) store \<le> rate_limit_max pol"
  shows "created_within rid ty start (rate_limit_window pol) (gate_run pol arrivals store)
           \<le> rate_limit_max pol"
  using assms
proof (induction arrivals arbitrary: store)
  case Nil
  then show ?case by simp
next
  case (Cons x xs)
  obtain now r d where x: "x = (now, r, d)" by (cases x) auto
  have "\<forall>rid ty start. created_within rid ty start (rate_limit_window pol)
            (snd (safety_gate pol now r d store)) \<le> rate_limit_max pol"
    using safety_gate_bounded [OF Cons.prems] by blast
  from Cons.IH [OF this] show ?case by (simp add: x)
qed

text \<open>
  Claim C1, as amended. With \<open>rate_limit_max = N\<close> and \<open>rate_limit_window = W\<close>, in
  every Action Store the gate builds from the empty one, for every key
  \<open>(rule_id, action.type)\<close> and every window \<open>[start, start + W)\<close>, at most \<open>N\<close>
  actions of that key were created in the window. A decision that arrives when \<open>N\<close>
  accepted actions of its key are within the window creates no action: the store is
  unchanged and the outcome is not an acceptance; the outcome is \<open>rate_limited\<close> when
  the decision has passed the confidence check, which comes first (a decision below
  the confidence threshold is \<open>blocked\<close> before the rate limit is consulted).
\<close>

theorem rate_limit_respected:
  "created_within rid ty start (rate_limit_window pol) (gate_run pol arrivals [])
     \<le> rate_limit_max pol \<and>
   (accepted_in_window pol now r store \<ge> rate_limit_max pol \<longrightarrow>
      snd (safety_gate pol now r d store) = store \<and>
      (\<forall>row. fst (safety_gate pol now r d store) \<noteq> Accepted row) \<and>
      (d_confidence d \<ge> confidence_threshold pol \<longrightarrow>
         fst (safety_gate pol now r d store) = RateLimited))"
proof -
  have "\<forall>rid ty start. created_within rid ty start (rate_limit_window pol) [] \<le> rate_limit_max pol"
    by (simp add: created_within_def)
  from gate_run_bounded [OF this] show ?thesis
    by (auto simp: safety_gate_def)
qed

lemmas gate_defs =
  Let_def safety_gate_def accepted_in_window_def duplicate_def same_key_def recent_def
  demo_policy_def demo_rule_def demo_decision_def demo_row_def

theorem rate_limit_respected_witness:
  "accepted_in_window demo_policy 110 demo_rule [demo_row] = 1 \<and>
   rate_limit_max demo_policy = 1 \<and>
   d_confidence (demo_decision (19 / 20)) \<ge> confidence_threshold demo_policy \<and>
   safety_gate demo_policy 110 demo_rule (demo_decision (19 / 20)) [demo_row]
     = (RateLimited, [demo_row]) \<and>
   gate_run demo_policy
     [(100, demo_rule, demo_decision (19 / 20)), (110, demo_rule, demo_decision (19 / 20))] []
     = [demo_row] \<and>
   created_within 7 ''alert'' 100 60
     (gate_run demo_policy
        [(100, demo_rule, demo_decision (19 / 20)), (110, demo_rule, demo_decision (19 / 20))] [])
     \<le> 1"
  using rate_limit_respected
    [of 7 "''alert''" 100 demo_policy
        "[(100, demo_rule, demo_decision (19 / 20)), (110, demo_rule, demo_decision (19 / 20))]"
        110 demo_rule "[demo_row]" "demo_decision (19 / 20)"]
  by (simp add: gate_defs)

text \<open>
  Claim C1 as stated fails in its second half: the confidence check comes before the
  rate limit. With one accepted alert of the key within the window and a limit of
  one, a decision of confidence 0.3 under a threshold of 0.5 receives the outcome
  \<open>blocked\<close>, not \<open>rate_limited\<close>.
\<close>

theorem rate_limited_counterexample:
  "accepted_in_window demo_policy 110 demo_rule [demo_row] \<ge> rate_limit_max demo_policy \<and>
   fst (safety_gate demo_policy 110 demo_rule (demo_decision (3 / 10)) [demo_row])
     = Blocked ''confidence'' \<and>
   fst (safety_gate demo_policy 110 demo_rule (demo_decision (3 / 10)) [demo_row])
     \<noteq> RateLimited"
  by (simp add: gate_defs)

lemma find_map_status:
  "find (\<lambda>a. row_id a = aid) (map (\<lambda>a. if row_id a = aid then a\<lparr>row_status := s\<rparr> else a) xs)
     = map_option (\<lambda>a. a\<lparr>row_status := s\<rparr>) (find (\<lambda>a. row_id a = aid) xs)"
  by (induction xs) auto

lemma resolve_first:
  assumes "status_of aid m = Some RequiresConfirmation"
  shows "fst (resolve aid c m) = Inr (ResolvedNow (target c))"
    and "status_of aid (snd (resolve aid c m)) = Some (target c)"
    and "handed_off (snd (resolve aid c m)) = handed_off m @ (if c = Confirm then [aid] else [])"
  using assms by (auto simp: resolve_def status_of_def find_map_status)

lemma resolve_later:
  assumes "status_of aid m = Some st" and "st \<noteq> RequiresConfirmation"
  shows "resolve aid c m = (Inr (AlreadyResolved st), m)"
  using assms by (simp add: resolve_def)

lemma resolve_all_later:
  assumes "status_of aid m = Some st" and "st \<noteq> RequiresConfirmation"
  shows "resolve_all aid cs m = (map (\<lambda>c. Inr (AlreadyResolved st)) cs, m)"
  using assms by (induction cs) (simp_all add: resolve_later)

lemma target_terminal: "target c \<noteq> RequiresConfirmation"
  by (cases c) (simp_all add: target_def)

text \<open>
  Claim C2. For every action that awaits confirmation and every sequence of confirm
  and reject calls on it, the first call decides: it moves the action to \<open>confirmed\<close>
  or \<open>rejected\<close>, and hands it to the executor when it confirms. Every later call
  changes nothing (the state after the whole sequence is the state after the first
  call) and returns, as an ordinary result, "already resolved" with the state the
  first call set; the executor receives the action at most once.
\<close>

theorem confirmation_first_call_wins:
  assumes "status_of aid m = Some RequiresConfirmation"
  shows "resolve_all aid (c # cs) m
           = (Inr (ResolvedNow (target c)) # map (\<lambda>c'. Inr (AlreadyResolved (target c))) cs,
              snd (resolve aid c m)) \<and>
         status_of aid (snd (resolve_all aid (c # cs) m)) = Some (target c) \<and>
         handed_off (snd (resolve_all aid (c # cs) m))
           = handed_off m @ (if c = Confirm then [aid] else [])"
proof -
  obtain res m' where first: "resolve aid c m = (res, m')"
    by (cases "resolve aid c m")
  from resolve_first [OF assms, of c] first
  have res: "res = Inr (ResolvedNow (target c))"
    and st: "status_of aid m' = Some (target c)"
    and h: "handed_off m' = handed_off m @ (if c = Confirm then [aid] else [])"
    by simp_all
  from resolve_all_later [OF st target_terminal]
  have "resolve_all aid cs m' = (map (\<lambda>c'. Inr (AlreadyResolved (target c))) cs, m')" .
  with first res st h show ?thesis by simp
qed

theorem confirmation_first_call_wins_witness:
  "status_of 0 \<lparr>rows = [demo_row], handed_off = []\<rparr> = Some RequiresConfirmation \<and>
   resolve_all 0 [Reject, Confirm, Reject] \<lparr>rows = [demo_row], handed_off = []\<rparr>
     = ([Inr (ResolvedNow Rejected), Inr (AlreadyResolved Rejected),
         Inr (AlreadyResolved Rejected)],
        \<lparr>rows = [demo_row\<lparr>row_status := Rejected\<rparr>], handed_off = []\<rparr>)"
  using confirmation_first_call_wins
    [of 0 "\<lparr>rows = [demo_row], handed_off = []\<rparr>" Reject "[Confirm, Reject]"]
  by (simp add: status_of_def demo_row_def resolve_def target_def)

end
